theory Spec2Isabelle
  imports Main
begin

section \<open>The objects the construct works with\<close>

text \<open>
  The construct of \<^verbatim>\<open>src/internal-apigateway.ts\<close> is written against a provisioning
  library (policy documents, REST APIs, base-path mappings, the construct tree). An object
  of a library class is represented by the arguments of the call that creates it. Of what
  the library does with them, the checks it makes when a construct is registered are
  modelled, in the second reading of the constructor; nothing else is.
\<close>

type_synonym ref = nat
  \<comment> \<open>a reference to a construct: its position in the construct tree\<close>

type_synonym number = int
  \<comment> \<open>a number that is only copied, never computed with\<close>

text \<open>
  Of the VPC endpoint the code reads \<^verbatim>\<open>vpcEndpointId\<close>. Of a domain it uses the
  conversion to a string, in the template literal that names the mapping; \<open>toString\<close> is
  the outcome of that conversion, \<open>domainName\<close> stands for the members of the object.
\<close>

record IInterfaceVpcEndpoint =
  vpcEndpointId :: string

record IDomainName =
  domainName :: string
  toString :: string

datatype Effect = ALLOW | DENY

datatype Principal = AnyPrincipal | ArnPrincipal string | ServicePrincipal string

datatype ConditionOperator = StringEquals | StringNotEquals

type_synonym Conditions = "(ConditionOperator \<times> (string \<times> string) list) list"
  \<comment> \<open>the object literal \<^verbatim>\<open>{ operator: { key: value } }\<close>, entries in source order\<close>

record PolicyStatement =
  effect :: Effect
  principals :: "Principal list"
  actions :: "string list"
  resources :: "string list"
  conditions :: Conditions

record PolicyDocument =
  statements :: "PolicyStatement list"

datatype EndpointType = EDGE | REGIONAL | PRIVATE

record EndpointConfiguration =
  types :: "EndpointType list"
  vpcEndpoints :: "IInterfaceVpcEndpoint list"

record StageOptions =
  stageName :: "string option"

record RestApiProps =
  description :: string
  endpointConfiguration :: EndpointConfiguration
  policy :: PolicyDocument
  deployOptions :: StageOptions
  binaryMediaTypes_api :: "string list option"
  minimumCompressionSize_api :: "number option"

text \<open>
  The one member of a library object that the code reads back is \<^verbatim>\<open>deploymentStage\<close>
  of the REST API. It is the stage object the API owns, represented by the reference of
  that API.
\<close>

datatype Stage = DeploymentStage ref

record RestApi =
  restApiProps :: RestApiProps
  deploymentStage :: Stage

record BasePathMappingProps =
  domainName_bpm :: IDomainName
  restApi :: ref
  stage_bpm :: "Stage option"
  basePath :: string

text \<open>
  The construct itself has one field, \<^verbatim>\<open>apiGateway\<close>, undefined until it is assigned.
  \<open>apiGateway_assigned\<close> is a history variable: the number of assignments made to
  the field so far.
\<close>

record InternalApiGateway =
  apiGateway :: "ref option"
  apiGateway_assigned :: nat

datatype construct =
    Construct
  | InternalApiGateway_c InternalApiGateway
  | RestApi_c RestApi
  | BasePathMapping_c BasePathMappingProps

record node =
  node_scope :: ref
  node_id :: string
  node_construct :: construct

type_synonym tree = "node list"

text \<open>
  The configuration as the constructor meets it at run time. The interface declares
  \<^verbatim>\<open>stage\<close>, \<^verbatim>\<open>domains\<close> and \<^verbatim>\<open>vpcEndpoint\<close> as required and the other three as
  optional; \<open>None\<close> is \<^verbatim>\<open>undefined\<close>, which a required field holds only when the
  caller went around the type checker.
\<close>

record InternalApiGatewayProps =
  stage :: "string option"
  domains :: "IDomainName list option"
  vpcEndpoint :: "IInterfaceVpcEndpoint option"
  apiBasePathMappingPath :: "string option"
  binaryMediaTypes :: "string list option"
  minimumCompressionSize :: "number option"

text \<open>
  What ends a call early: a \<^verbatim>\<open>TypeError\<close> of the language, raised where the
  constructor's own code reads a property of \<^verbatim>\<open>undefined\<close> or iterates over it, or
  an \<^verbatim>\<open>Error\<close> that a constructor of the library throws. The constructor has no
  \<^verbatim>\<open>try\<close>: either one ends it. The message is abridged; nothing below depends on its
  wording.
\<close>

datatype error = TypeError string | Error string

section \<open>The construct tree\<close>

definition lookup :: "tree \<Rightarrow> ref \<Rightarrow> node option" where
  "lookup t r = (if r < length t then Some (t ! r) else None)"

text \<open>
  \<^verbatim>\<open>new C(scope, id, ...)\<close>, the bare registration: the new construct is appended
  under its scope with the identifier as passed, and nothing is checked. This is enough to
  say which values the constructor hands to the gateway and to each mapping. The checks
  the library makes at a registration follow further down, with a second reading of the
  constructor that includes them.
\<close>

definition new_construct :: "tree \<Rightarrow> ref \<Rightarrow> string \<Rightarrow> construct \<Rightarrow> tree \<times> ref" where
  "new_construct t scope cid c =
     (t @ [\<lparr>node_scope = scope, node_id = cid, node_construct = c\<rparr>], length t)"

text \<open>\<^verbatim>\<open>new apigateway.RestApi(scope, id, props)\<close>\<close>

definition new_RestApi :: "tree \<Rightarrow> ref \<Rightarrow> string \<Rightarrow> RestApiProps \<Rightarrow> tree \<times> ref" where
  "new_RestApi t scope cid props =
     new_construct t scope cid
       (RestApi_c \<lparr>restApiProps = props, deploymentStage = DeploymentStage (length t)\<rparr>)"

text \<open>\<^verbatim>\<open>this.apiGateway = g\<close>\<close>

definition assign_apiGateway :: "tree \<Rightarrow> ref \<Rightarrow> ref \<Rightarrow> tree" where
  "assign_apiGateway t this g =
     (case lookup t this of
        None \<Rightarrow> t
      | Some n \<Rightarrow>
          (case node_construct n of
             InternalApiGateway_c f \<Rightarrow>
               t[this := n\<lparr>node_construct := InternalApiGateway_c
                    (f\<lparr>apiGateway := Some g,
                       apiGateway_assigned := Suc (apiGateway_assigned f)\<rparr>)\<rparr>]
           | _ \<Rightarrow> t))"

text \<open>The read \<^verbatim>\<open>this.apiGateway\<close>; \<open>None\<close> is \<^verbatim>\<open>undefined\<close>.\<close>

definition read_apiGateway :: "tree \<Rightarrow> ref \<Rightarrow> ref option" where
  "read_apiGateway t this =
     (case lookup t this of
        None \<Rightarrow> None
      | Some n \<Rightarrow>
          (case node_construct n of
             InternalApiGateway_c f \<Rightarrow> apiGateway f
           | _ \<Rightarrow> None))"

text \<open>The read \<^verbatim>\<open>g.deploymentStage\<close> on the object at \<open>g\<close>.\<close>

definition read_deploymentStage :: "tree \<Rightarrow> ref \<Rightarrow> Stage option" where
  "read_deploymentStage t g =
     (case lookup t g of
        None \<Rightarrow> None
      | Some n \<Rightarrow>
          (case node_construct n of
             RestApi_c r \<Rightarrow> Some (deploymentStage r)
           | _ \<Rightarrow> None))"

section \<open>The constructor\<close>

text \<open>Lines 52 to 77: the resource policy, from \<^verbatim>\<open>props.vpcEndpoint.vpcEndpointId\<close>.\<close>

definition apiResourcePolicy :: "string \<Rightarrow> PolicyDocument" where
  "apiResourcePolicy vpce =
     \<lparr>statements =
        [\<lparr>effect = DENY,
          principals = [AnyPrincipal],
          actions = [''execute-api:Invoke''],
          resources = [''execute-api:/*/*/*''],
          conditions = [(StringNotEquals, [(''aws:sourceVpce'', vpce)])]\<rparr>,
         \<lparr>effect = ALLOW,
          principals = [AnyPrincipal],
          actions = [''execute-api:Invoke''],
          resources = [''execute-api:/*/*/*''],
          conditions = [(StringEquals, [(''aws:sourceVpce'', vpce)])]\<rparr>]\<rparr>"

text \<open>
  Lines 98 to 100: \<^verbatim>\<open>props.apiBasePathMappingPath ? props.apiBasePathMappingPath : ""\<close>.
  The test is one of truthiness: \<^verbatim>\<open>undefined\<close> and the empty string are both falsy.
\<close>

fun truthy :: "string option \<Rightarrow> bool" where
  "truthy None = False"
| "truthy (Some s) = (s \<noteq> [])"

definition basePath_of :: "string option \<Rightarrow> string" where
  "basePath_of p = (if truthy p then (case p of Some s \<Rightarrow> s | None \<Rightarrow> []) else [])"

text \<open>The template literal of line 94, the identifier of a mapping.\<close>

definition mapping_id :: "IDomainName \<Rightarrow> string" where
  "mapping_id domainItem = ''-'' @ toString domainItem"

text \<open>
  Lines 93 to 102: the loop over \<^verbatim>\<open>props.domains\<close>. Each round reads
  \<^verbatim>\<open>this.apiGateway\<close> and its \<^verbatim>\<open>deploymentStage\<close> from the tree; the second read is a
  property access on the first, a \<^verbatim>\<open>TypeError\<close> when that is \<^verbatim>\<open>undefined\<close>.
\<close>

fun create_mappings :: "tree \<Rightarrow> ref \<Rightarrow> string option \<Rightarrow> IDomainName list \<Rightarrow> error + tree" where
  "create_mappings t this path [] = Inr t"
| "create_mappings t this path (domainItem # rest) =
     (case read_apiGateway t this of
        None \<Rightarrow> Inl (TypeError ''Cannot read properties of undefined (reading deploymentStage)'')
      | Some g \<Rightarrow>
          create_mappings
            (fst (new_construct t this (mapping_id domainItem)
               (BasePathMapping_c
                  \<lparr>domainName_bpm = domainItem,
                   restApi = g,
                   stage_bpm = read_deploymentStage t g,
                   basePath = basePath_of path\<rparr>)))
            this path rest)"

text \<open>Lines 79 to 91: the properties the REST API is created with.\<close>

definition gateway_props :: "InternalApiGatewayProps \<Rightarrow> IInterfaceVpcEndpoint \<Rightarrow> RestApiProps" where
  "gateway_props props ep =
     \<lparr>description = ''This service serves an internal api gateway'',
      endpointConfiguration = \<lparr>types = [PRIVATE], vpcEndpoints = [ep]\<rparr>,
      policy = apiResourcePolicy (vpcEndpointId ep),
      deployOptions = \<lparr>stageName = stage props\<rparr>,
      binaryMediaTypes_api = binaryMediaTypes props,
      minimumCompressionSize_api = minimumCompressionSize props\<rparr>"

text \<open>
  The constructor, lines 49 to 103. It returns the tree with the constructs it registered
  and the reference of the new construct, or the error that ended it.
\<close>

definition InternalApiGateway_constructor ::
  "tree \<Rightarrow> ref \<Rightarrow> string \<Rightarrow> InternalApiGatewayProps \<Rightarrow> error + tree \<times> ref" where
  "InternalApiGateway_constructor t scope cid props =
     (let (t1, this) = new_construct t scope cid
                         (InternalApiGateway_c \<lparr>apiGateway = None, apiGateway_assigned = 0\<rparr>)
      in case vpcEndpoint props of
           None \<Rightarrow> Inl (TypeError ''Cannot read properties of undefined (reading vpcEndpointId)'')
         | Some ep \<Rightarrow>
             (let (t2, g) = new_RestApi t1 this (''Gateway-'' @ cid) (gateway_props props ep);
                  t3 = assign_apiGateway t2 this g
              in case domains props of
                   None \<Rightarrow> Inl (TypeError ''props.domains is not iterable'')
                 | Some ds \<Rightarrow>
                     (case create_mappings t3 this (apiBasePathMappingPath props) ds of
                        Inl e \<Rightarrow> Inl e
                      | Inr t4 \<Rightarrow> Inr (t4, this))))"

section \<open>The constructor with the checks of the library\<close>

text \<open>
  The library's constructors, which the constructor calls, check what they are given and
  throw where they refuse it. Three of these checks bear on what the constructor can
  register.

  \<^item> A construct is stored under its identifier with every \<^verbatim>\<open>/\<close> replaced by
    \<^verbatim>\<open>--\<close>.
  \<^item> The stored identifier must not be empty and must not be in use under the scope.
  \<^item> A base-path mapping is registered first; then its base path, unless it is empty, is
    tested, and a base path that fails the test is refused.

  The test of the base path is not the same in every version of the library, so it is a
  parameter \<open>ok\<close> here. The library refuses a base path that begins with \<^verbatim>\<open>/\<close>;
  \<open>no_leading_slash\<close> is the test that refuses nothing else, used where an example
  needs a test.
\<close>

fun sanitizeId :: "string \<Rightarrow> string" where
  "sanitizeId [] = []"
| "sanitizeId (c # cs) = (if c = CHR ''/'' then ''--'' @ sanitizeId cs else c # sanitizeId cs)"

definition has_child :: "tree \<Rightarrow> ref \<Rightarrow> string \<Rightarrow> bool" where
  "has_child t scope i = list_ex (\<lambda>n. node_scope n = scope \<and> node_id n = i) t"

definition register :: "tree \<Rightarrow> ref \<Rightarrow> string \<Rightarrow> construct \<Rightarrow> error + tree \<times> ref" where
  "register t scope cid c =
     (let i = sanitizeId cid
      in if i = [] then Inl (Error ''Only root constructs may have an empty ID'')
         else if has_child t scope i
              then Inl (Error (''There is already a Construct with name '' @ i))
              else Inr (new_construct t scope i c))"

definition register_RestApi :: "tree \<Rightarrow> ref \<Rightarrow> string \<Rightarrow> RestApiProps \<Rightarrow> error + tree \<times> ref" where
  "register_RestApi t scope cid props =
     register t scope cid
       (RestApi_c \<lparr>restApiProps = props, deploymentStage = DeploymentStage (length t)\<rparr>)"

definition register_BasePathMapping ::
  "(string \<Rightarrow> bool) \<Rightarrow> tree \<Rightarrow> ref \<Rightarrow> string \<Rightarrow> BasePathMappingProps \<Rightarrow> error + tree \<times> ref" where
  "register_BasePathMapping ok t scope cid props =
     (case register t scope cid (BasePathMapping_c props) of
        Inl e \<Rightarrow> Inl e
      | Inr r \<Rightarrow>
          if basePath props \<noteq> [] \<and> \<not> ok (basePath props)
          then Inl (Error (''A base path was refused, received: '' @ basePath props))
          else Inr r)"

definition no_leading_slash :: "string \<Rightarrow> bool" where
  "no_leading_slash s = (take 1 s \<noteq> ''/'')"

text \<open>The loop of lines 93 to 102 again, each mapping registered with the checks.\<close>

fun create_mappings_checked ::
  "(string \<Rightarrow> bool) \<Rightarrow> tree \<Rightarrow> ref \<Rightarrow> string option \<Rightarrow> IDomainName list \<Rightarrow> error + tree" where
  "create_mappings_checked ok t this path [] = Inr t"
| "create_mappings_checked ok t this path (domainItem # rest) =
     (case read_apiGateway t this of
        None \<Rightarrow> Inl (TypeError ''Cannot read properties of undefined (reading deploymentStage)'')
      | Some g \<Rightarrow>
          (case register_BasePathMapping ok t this (mapping_id domainItem)
                  \<lparr>domainName_bpm = domainItem,
                   restApi = g,
                   stage_bpm = read_deploymentStage t g,
                   basePath = basePath_of path\<rparr> of
             Inl e \<Rightarrow> Inl e
           | Inr (t', m) \<Rightarrow> create_mappings_checked ok t' this path rest))"

text \<open>
  The constructor of lines 49 to 103 again, statement by statement as before, each
  registration with the checks. An error carries no tree: what was registered before it
  was thrown is not reported.
\<close>

definition InternalApiGateway_constructor_checked ::
  "(string \<Rightarrow> bool) \<Rightarrow> tree \<Rightarrow> ref \<Rightarrow> string \<Rightarrow> InternalApiGatewayProps \<Rightarrow> error + tree \<times> ref" where
  "InternalApiGateway_constructor_checked ok t scope cid props =
     (case register t scope cid
             (InternalApiGateway_c \<lparr>apiGateway = None, apiGateway_assigned = 0\<rparr>) of
        Inl e \<Rightarrow> Inl e
      | Inr (t1, this) \<Rightarrow>
          (case vpcEndpoint props of
             None \<Rightarrow>
               Inl (TypeError ''Cannot read properties of undefined (reading vpcEndpointId)'')
           | Some ep \<Rightarrow>
               (case register_RestApi t1 this (''Gateway-'' @ cid) (gateway_props props ep) of
                  Inl e \<Rightarrow> Inl e
                | Inr (t2, g) \<Rightarrow>
                    (let t3 = assign_apiGateway t2 this g
                     in case domains props of
                          None \<Rightarrow> Inl (TypeError ''props.domains is not iterable'')
                        | Some ds \<Rightarrow>
                            (case create_mappings_checked ok t3 this
                                    (apiBasePathMappingPath props) ds of
                               Inl e \<Rightarrow> Inl e
                             | Inr t4 \<Rightarrow> Inr (t4, this))))))"

text \<open>
  A tree in which every scope is a construct of the tree; a construct that is yet to be
  created has no children in it.
\<close>

definition scopes_inside :: "tree \<Rightarrow> bool" where
  "scopes_inside t = list_all (\<lambda>n. node_scope n < length t) t"

text \<open>A node as the library stores it, and the stored identifier of a mapping.\<close>

definition stored :: "node \<Rightarrow> node" where
  "stored n = n\<lparr>node_id := sanitizeId (node_id n)\<rparr>"

definition stored_mapping_id :: "IDomainName \<Rightarrow> string" where
  "stored_mapping_id d = sanitizeId (mapping_id d)"

text \<open>What the library asks of the identifier of the construct and of the base path.\<close>

definition id_accepted :: "tree \<Rightarrow> ref \<Rightarrow> string \<Rightarrow> bool" where
  "id_accepted t scope cid = (cid \<noteq> [] \<and> \<not> has_child t scope (sanitizeId cid))"

definition basePath_accepted :: "(string \<Rightarrow> bool) \<Rightarrow> string option \<Rightarrow> bool" where
  "basePath_accepted ok path = (basePath_of path = [] \<or> ok (basePath_of path))"

section \<open>What a call leaves in the tree\<close>

text \<open>The constructs a call has registered: the part of the tree beyond the old one.\<close>

definition created :: "tree \<Rightarrow> tree \<Rightarrow> node list" where
  "created t t' = drop (length t) t'"

text \<open>The REST API that \<^verbatim>\<open>this.apiGateway\<close> refers to.\<close>

definition gateway_of :: "tree \<Rightarrow> ref \<Rightarrow> RestApi option" where
  "gateway_of t this =
     (case read_apiGateway t this of
        None \<Rightarrow> None
      | Some g \<Rightarrow>
          (case lookup t g of
             None \<Rightarrow> None
           | Some n \<Rightarrow> (case node_construct n of RestApi_c r \<Rightarrow> Some r | _ \<Rightarrow> None)))"

text \<open>The fields of the construct at \<open>this\<close>.\<close>

definition fields_of :: "tree \<Rightarrow> ref \<Rightarrow> InternalApiGateway option" where
  "fields_of t this =
     (case lookup t this of
        None \<Rightarrow> None
      | Some n \<Rightarrow> (case node_construct n of InternalApiGateway_c f \<Rightarrow> Some f | _ \<Rightarrow> None))"

text \<open>
  The base-path mappings among some nodes that were registered under \<open>this\<close>, each with
  its identifier, in the order of their creation.
\<close>

fun mappings_of :: "node list \<Rightarrow> ref \<Rightarrow> (string \<times> BasePathMappingProps) list" where
  "mappings_of [] this = []"
| "mappings_of (n # ns) this =
     (case node_construct n of
        BasePathMapping_c m \<Rightarrow>
          (if node_scope n = this then (node_id n, m) # mappings_of ns this
           else mappings_of ns this)
      | _ \<Rightarrow> mappings_of ns this)"

text \<open>
  The three kinds of node a successful call appends to a tree \<open>t\<close>: the construct
  itself at \<open>length t\<close>, with its field assigned once; the REST API at
  \<open>Suc (length t)\<close>; and one mapping for a domain.
\<close>

definition this_node :: "tree \<Rightarrow> ref \<Rightarrow> string \<Rightarrow> node" where
  "this_node t scope cid =
     \<lparr>node_scope = scope, node_id = cid,
      node_construct = InternalApiGateway_c
        \<lparr>apiGateway = Some (Suc (length t)), apiGateway_assigned = Suc 0\<rparr>\<rparr>"

definition gateway_node :: "tree \<Rightarrow> string \<Rightarrow> RestApiProps \<Rightarrow> node" where
  "gateway_node t cid rp =
     \<lparr>node_scope = length t, node_id = ''Gateway-'' @ cid,
      node_construct = RestApi_c
        \<lparr>restApiProps = rp, deploymentStage = DeploymentStage (Suc (length t))\<rparr>\<rparr>"

definition mapping_node :: "tree \<Rightarrow> string option \<Rightarrow> IDomainName \<Rightarrow> node" where
  "mapping_node t path d =
     \<lparr>node_scope = length t, node_id = mapping_id d,
      node_construct = BasePathMapping_c
        \<lparr>domainName_bpm = d, restApi = Suc (length t),
         stage_bpm = Some (DeploymentStage (Suc (length t))),
         basePath = basePath_of path\<rparr>\<rparr>"

text \<open>A mapping as the loop with the checks registers it.\<close>

definition stored_mapping_node :: "ref \<Rightarrow> ref \<Rightarrow> Stage option \<Rightarrow> string option \<Rightarrow> IDomainName \<Rightarrow> node" where
  "stored_mapping_node this g st path d =
     \<lparr>node_scope = this, node_id = stored_mapping_id d,
      node_construct = BasePathMapping_c
        \<lparr>domainName_bpm = d, restApi = g, stage_bpm = st, basePath = basePath_of path\<rparr>\<rparr>"

section \<open>The loop\<close>

lemma lookup_append:
  "r < length t \<Longrightarrow> lookup (t @ ns) r = lookup t r"
  by (simp add: lookup_def nth_append)

lemma read_apiGateway_bound:
  "read_apiGateway t this = Some g \<Longrightarrow> this < length t"
  by (simp add: read_apiGateway_def lookup_def split: if_splits)

lemma read_apiGateway_append:
  assumes "read_apiGateway t this = Some g"
  shows "read_apiGateway (t @ ns) this = Some g"
proof -
  have "this < length t"
    using assms by (rule read_apiGateway_bound)
  then have "lookup (t @ ns) this = lookup t this"
    by (rule lookup_append)
  then show ?thesis
    using assms by (simp add: read_apiGateway_def)
qed

lemma read_deploymentStage_append:
  "g < length t \<Longrightarrow> read_deploymentStage (t @ ns) g = read_deploymentStage t g"
  by (simp add: read_deploymentStage_def lookup_append)

text \<open>
  Once the field is assigned and refers into the tree, the loop never fails: it appends
  one mapping per domain, in order, and every mapping carries what the two reads gave
  before the first round.
\<close>

lemma create_mappings_result:
  assumes "read_apiGateway t this = Some g" and "g < length t"
  shows "create_mappings t this path ds =
           Inr (t @ map (\<lambda>d. \<lparr>node_scope = this, node_id = mapping_id d,
                              node_construct = BasePathMapping_c
                                \<lparr>domainName_bpm = d, restApi = g,
                                 stage_bpm = read_deploymentStage t g,
                                 basePath = basePath_of path\<rparr>\<rparr>) ds)"
  using assms
proof (induction ds arbitrary: t)
  case Nil
  show ?case by simp
next
  case (Cons d ds)
  let ?n = "\<lparr>node_scope = this, node_id = mapping_id d,
             node_construct = BasePathMapping_c
               \<lparr>domainName_bpm = d, restApi = g,
                stage_bpm = read_deploymentStage t g,
                basePath = basePath_of path\<rparr>\<rparr>"
  have r: "read_apiGateway (t @ [?n]) this = Some g"
    using Cons.prems(1) by (rule read_apiGateway_append)
  have b: "g < length (t @ [?n])"
    using Cons.prems(2) by simp
  have s: "read_deploymentStage (t @ [?n]) g = read_deploymentStage t g"
    using Cons.prems(2) by (rule read_deploymentStage_append)
  have "create_mappings t this path (d # ds) = create_mappings (t @ [?n]) this path ds"
    using Cons.prems(1) by (simp add: new_construct_def)
  also have "\<dots> = Inr ((t @ [?n]) @ map (\<lambda>d. \<lparr>node_scope = this, node_id = mapping_id d,
                              node_construct = BasePathMapping_c
                                \<lparr>domainName_bpm = d, restApi = g,
                                 stage_bpm = read_deploymentStage (t @ [?n]) g,
                                 basePath = basePath_of path\<rparr>\<rparr>) ds)"
    using r b by (rule Cons.IH)
  finally show ?case
    by (simp add: s)
qed

text \<open>Without the field assigned, the first round of the loop fails.\<close>

lemma create_mappings_unassigned:
  "read_apiGateway t this = None \<Longrightarrow> \<exists>e. create_mappings t this path (d # ds) = Inl e"
  by simp

section \<open>The result of the constructor\<close>

lemma constructor_result:
  assumes "vpcEndpoint props = Some ep" and "domains props = Some ds"
  shows "InternalApiGateway_constructor t scope cid props =
           Inr (t @ this_node t scope cid # gateway_node t cid (gateway_props props ep)
                  # map (mapping_node t (apiBasePathMappingPath props)) ds,
                length t)"
proof -
  let ?t1 = "t @ [\<lparr>node_scope = scope, node_id = cid,
                   node_construct = InternalApiGateway_c
                     \<lparr>apiGateway = None, apiGateway_assigned = 0\<rparr>\<rparr>]"
  let ?g = "\<lambda>i. \<lparr>node_scope = length t, node_id = i,
                  node_construct = RestApi_c
                    \<lparr>restApiProps = gateway_props props ep,
                     deploymentStage = DeploymentStage (Suc (length t))\<rparr>\<rparr>"
  let ?t3 = "\<lambda>i. t @ [this_node t scope cid, ?g i]"
  have t2: "new_RestApi ?t1 (length t) i (gateway_props props ep)
              = (?t1 @ [?g i], Suc (length t))" for i
    by (simp add: new_RestApi_def new_construct_def)
  have t3: "assign_apiGateway (?t1 @ [?g i]) (length t) (Suc (length t)) = ?t3 i" for i
    by (simp add: assign_apiGateway_def lookup_def nth_append this_node_def list_update_append)
  have rd: "read_apiGateway (?t3 i) (length t) = Some (Suc (length t))" for i
    by (simp add: read_apiGateway_def lookup_def nth_append this_node_def)
  have st: "read_deploymentStage (?t3 i) (Suc (length t))
              = Some (DeploymentStage (Suc (length t)))" for i
    by (simp add: read_deploymentStage_def lookup_def nth_append)
  have lp: "create_mappings (?t3 i) (length t) (apiBasePathMappingPath props) ds =
          Inr (?t3 i @ map (mapping_node t (apiBasePathMappingPath props)) ds)" for i
    using create_mappings_result [OF rd, of i "apiBasePathMappingPath props" ds]
    by (simp add: st mapping_node_def)
  have "InternalApiGateway_constructor t scope cid props =
          Inr (?t3 (''Gateway-'' @ cid) @ map (mapping_node t (apiBasePathMappingPath props)) ds,
               length t)"
    unfolding InternalApiGateway_constructor_def new_construct_def
    by (simp only: assms t2 t3 lp Let_def prod.case option.case sum.case)
  then show ?thesis
    by (simp add: gateway_node_def)
qed

lemma constructor_no_endpoint:
  "vpcEndpoint props = None \<Longrightarrow> \<exists>e. InternalApiGateway_constructor t scope cid props = Inl e"
  by (simp add: InternalApiGateway_constructor_def new_construct_def)

lemma constructor_no_domains:
  "domains props = None \<Longrightarrow> \<exists>e. InternalApiGateway_constructor t scope cid props = Inl e"
  by (simp add: InternalApiGateway_constructor_def new_construct_def new_RestApi_def
      split: option.splits prod.splits)

section \<open>Reading the result\<close>

lemma created_result:
  "created t (t @ ns) = ns"
  by (simp add: created_def)

lemma mappings_of_mapping_nodes:
  "mappings_of (map (mapping_node t path) ds) (length t) =
     map (\<lambda>d. (mapping_id d,
                \<lparr>domainName_bpm = d, restApi = Suc (length t),
                 stage_bpm = Some (DeploymentStage (Suc (length t))),
                 basePath = basePath_of path\<rparr>)) ds"
  by (induction ds) (simp_all add: mapping_node_def)

lemma mappings_of_result:
  "mappings_of (this_node t scope cid # gateway_node t cid rp # map (mapping_node t path) ds)
       (length t) =
     map (\<lambda>d. (mapping_id d,
                \<lparr>domainName_bpm = d, restApi = Suc (length t),
                 stage_bpm = Some (DeploymentStage (Suc (length t))),
                 basePath = basePath_of path\<rparr>)) ds"
  by (simp add: this_node_def gateway_node_def mappings_of_mapping_nodes)

lemma read_apiGateway_result:
  "read_apiGateway (t @ this_node t scope cid # ns) (length t) = Some (Suc (length t))"
  by (simp add: read_apiGateway_def lookup_def this_node_def)

lemma fields_of_result:
  "fields_of (t @ this_node t scope cid # ns) (length t) =
     Some \<lparr>apiGateway = Some (Suc (length t)), apiGateway_assigned = Suc 0\<rparr>"
  by (simp add: fields_of_def lookup_def this_node_def)

lemma lookup_gateway_result:
  "lookup (t @ this_node t scope cid # gateway_node t cid rp # ns) (Suc (length t)) =
     Some (gateway_node t cid rp)"
  by (simp add: lookup_def nth_append)

lemma read_deploymentStage_result:
  "read_deploymentStage (t @ this_node t scope cid # gateway_node t cid rp # ns) (Suc (length t))
     = Some (DeploymentStage (Suc (length t)))"
  by (simp add: read_deploymentStage_def lookup_gateway_result) (simp add: gateway_node_def)

lemma gateway_of_result:
  "gateway_of (t @ this_node t scope cid # gateway_node t cid rp # ns) (length t) =
     Some \<lparr>restApiProps = rp, deploymentStage = DeploymentStage (Suc (length t))\<rparr>"
  by (simp add: gateway_of_def read_apiGateway_result lookup_gateway_result)
     (simp add: gateway_node_def)

lemmas result_simps =
  created_result mappings_of_result read_apiGateway_result fields_of_result
  read_deploymentStage_result gateway_of_result

lemma basePath_of_simps:
  "basePath_of None = []"
  "basePath_of (Some []) = []"
  "s \<noteq> [] \<Longrightarrow> basePath_of (Some s) = s"
  by (simp_all add: basePath_of_def)

lemma create_mappings_path:
  "basePath_of p = basePath_of q \<Longrightarrow> create_mappings t this p ds = create_mappings t this q ds"
  by (induction ds arbitrary: t) (simp_all split: option.splits)

lemma mappings_of_result_nil:
  "mappings_of [this_node t scope cid, gateway_node t cid rp] (length t) = []"
  by (simp add: this_node_def gateway_node_def)

text \<open>
  The scenario of the specification, run on an empty tree: stage \<^verbatim>\<open>prod\<close>, two domains,
  endpoint \<^verbatim>\<open>vpce-1\<close>, nothing else configured.
\<close>

lemma scenario_prod_two_domains:
  "InternalApiGateway_constructor [] 0 ''Api''
     \<lparr>stage = Some ''prod'',
      domains = Some [\<lparr>domainName = ''a.example.com'', toString = ''Stack/DomainA''\<rparr>,
                      \<lparr>domainName = ''b.example.com'', toString = ''Stack/DomainB''\<rparr>],
      vpcEndpoint = Some \<lparr>vpcEndpointId = ''vpce-1''\<rparr>,
      apiBasePathMappingPath = None,
      binaryMediaTypes = None,
      minimumCompressionSize = None\<rparr>
   = Inr ([\<lparr>node_scope = 0, node_id = ''Api'',
            node_construct = InternalApiGateway_c
              \<lparr>apiGateway = Some 1, apiGateway_assigned = 1\<rparr>\<rparr>,
           \<lparr>node_scope = 0, node_id = ''Gateway-Api'',
            node_construct = RestApi_c
              \<lparr>restApiProps =
                 \<lparr>description = ''This service serves an internal api gateway'',
                  endpointConfiguration =
                    \<lparr>types = [PRIVATE], vpcEndpoints = [\<lparr>vpcEndpointId = ''vpce-1''\<rparr>]\<rparr>,
                  policy = apiResourcePolicy ''vpce-1'',
                  deployOptions = \<lparr>stageName = Some ''prod''\<rparr>,
                  binaryMediaTypes_api = None,
                  minimumCompressionSize_api = None\<rparr>,
               deploymentStage = DeploymentStage 1\<rparr>\<rparr>,
           \<lparr>node_scope = 0, node_id = ''-Stack/DomainA'',
            node_construct = BasePathMapping_c
              \<lparr>domainName_bpm = \<lparr>domainName = ''a.example.com'', toString = ''Stack/DomainA''\<rparr>,
               restApi = 1, stage_bpm = Some (DeploymentStage 1), basePath = []\<rparr>\<rparr>,
           \<lparr>node_scope = 0, node_id = ''-Stack/DomainB'',
            node_construct = BasePathMapping_c
              \<lparr>domainName_bpm = \<lparr>domainName = ''b.example.com'', toString = ''Stack/DomainB''\<rparr>,
               restApi = 1, stage_bpm = Some (DeploymentStage 1), basePath = []\<rparr>\<rparr>],
          0)"
  by code_simp

section \<open>The result with the checks of the library\<close>

lemma sanitizeId_empty: "(sanitizeId s = []) = (s = [])"
  by (cases s) simp_all

lemma sanitizeId_append: "sanitizeId (a @ b) = sanitizeId a @ sanitizeId b"
  by (induction a) simp_all

lemma stored_mapping_id_hyphen: "stored_mapping_id d = ''-'' @ sanitizeId (toString d)"
  by (simp add: stored_mapping_id_def mapping_id_def)

lemma has_child_append:
  "has_child (t @ ns) scope i = (has_child t scope i \<or> has_child ns scope i)"
  by (simp add: has_child_def)

lemma has_child_single:
  "has_child [n] scope i = (node_scope n = scope \<and> node_id n = i)"
  by (simp add: has_child_def)

lemma scopes_inside_no_child:
  "scopes_inside t \<Longrightarrow> \<not> has_child t (length t) i"
  by (auto simp add: scopes_inside_def has_child_def list_all_iff list_ex_iff)

lemma register_mapping_ok:
  assumes "\<not> has_child t this (stored_mapping_id d)"
    and "basePath_of path = [] \<or> ok (basePath_of path)"
  shows "register_BasePathMapping ok t this (mapping_id d)
           \<lparr>domainName_bpm = d, restApi = g, stage_bpm = st, basePath = basePath_of path\<rparr>
         = Inr (t @ [stored_mapping_node this g st path d], length t)"
  using assms
  by (auto simp add: register_BasePathMapping_def register_def new_construct_def Let_def
      stored_mapping_node_def stored_mapping_id_def sanitizeId_empty mapping_id_def)

lemma register_mapping_collision:
  assumes "has_child t this (stored_mapping_id d)"
  shows "\<exists>m. register_BasePathMapping ok t this (mapping_id d) p = Inl (Error m)"
  using assms
  by (simp add: register_BasePathMapping_def register_def Let_def stored_mapping_id_def)

lemma register_mapping_refused:
  assumes "basePath p \<noteq> []" and "\<not> ok (basePath p)"
  shows "\<exists>m. register_BasePathMapping ok t this i p = Inl (Error m)"
  using assms
  by (simp add: register_BasePathMapping_def register_def Let_def split: sum.splits)

lemma create_mappings_checked_ok:
  assumes "read_apiGateway t this = Some g" and "g < length t"
    and "distinct (map stored_mapping_id ds)"
    and "list_all (\<lambda>d. \<not> has_child t this (stored_mapping_id d)) ds"
    and "basePath_of path = [] \<or> ok (basePath_of path)"
  shows "create_mappings_checked ok t this path ds =
           Inr (t @ map (stored_mapping_node this g (read_deploymentStage t g) path) ds)"
  using assms
proof (induction ds arbitrary: t)
  case Nil
  show ?case by simp
next
  case (Cons d ds)
  let ?n = "stored_mapping_node this g (read_deploymentStage t g) path d"
  have fresh: "\<not> has_child t this (stored_mapping_id d)"
    using Cons.prems(4) by simp
  have reg: "register_BasePathMapping ok t this (mapping_id d)
           \<lparr>domainName_bpm = d, restApi = g, stage_bpm = read_deploymentStage t g,
            basePath = basePath_of path\<rparr>
         = Inr (t @ [?n], length t)"
    using fresh Cons.prems(5) by (rule register_mapping_ok)
  have r: "read_apiGateway (t @ [?n]) this = Some g"
    using Cons.prems(1) by (rule read_apiGateway_append)
  have b: "g < length (t @ [?n])"
    using Cons.prems(2) by simp
  have s: "read_deploymentStage (t @ [?n]) g = read_deploymentStage t g"
    using Cons.prems(2) by (rule read_deploymentStage_append)
  have d: "distinct (map stored_mapping_id ds)"
    using Cons.prems(3) by simp
  have f: "list_all (\<lambda>d. \<not> has_child (t @ [?n]) this (stored_mapping_id d)) ds"
    using Cons.prems(3,4)
    by (auto simp add: list_all_iff has_child_append has_child_single stored_mapping_node_def)
  have "create_mappings_checked ok t this path (d # ds)
          = create_mappings_checked ok (t @ [?n]) this path ds"
    using Cons.prems(1) by (simp add: reg)
  also have "\<dots> = Inr ((t @ [?n]) @
       map (stored_mapping_node this g (read_deploymentStage (t @ [?n]) g) path) ds)"
    using r b d f Cons.prems(5) by (rule Cons.IH)
  finally show ?case
    by (simp add: s)
qed

lemma create_mappings_checked_collision:
  assumes "read_apiGateway t this = Some g"
    and "\<not> (distinct (map stored_mapping_id ds)
           \<and> list_all (\<lambda>d. \<not> has_child t this (stored_mapping_id d)) ds)"
  shows "\<exists>m. create_mappings_checked ok t this path ds = Inl (Error m)"
  using assms
proof (induction ds arbitrary: t)
  case Nil
  then show ?case by simp
next
  case (Cons d ds)
  let ?p = "\<lparr>domainName_bpm = d, restApi = g, stage_bpm = read_deploymentStage t g,
            basePath = basePath_of path\<rparr>"
  show ?case
  proof (cases "register_BasePathMapping ok t this (mapping_id d) ?p")
    case (Inl e)
    have "\<exists>m. e = Error m"
      using Inl
      by (auto simp add: register_BasePathMapping_def register_def Let_def
          split: sum.splits if_splits)
    then show ?thesis
      using Cons.prems(1) Inl by auto
  next
    case (Inr r)
    have fresh: "\<not> has_child t this (stored_mapping_id d)"
      using Inr register_mapping_collision [of t this d ok ?p] by auto
    have tr: "r = (t @ [\<lparr>node_scope = this, node_id = stored_mapping_id d,
                         node_construct = BasePathMapping_c ?p\<rparr>], length t)"
      using Inr
      by (auto simp add: register_BasePathMapping_def register_def Let_def new_construct_def
          stored_mapping_id_def split: sum.splits if_splits)
    let ?t' = "t @ [\<lparr>node_scope = this, node_id = stored_mapping_id d,
                         node_construct = BasePathMapping_c ?p\<rparr>]"
    have r': "read_apiGateway ?t' this = Some g"
      using Cons.prems(1) by (rule read_apiGateway_append)
    have bad: "\<not> (distinct (map stored_mapping_id ds)
           \<and> list_all (\<lambda>d. \<not> has_child ?t' this (stored_mapping_id d)) ds)"
      using Cons.prems(2) fresh
      by (auto simp add: list_all_iff has_child_append has_child_single)
    have "\<exists>m. create_mappings_checked ok ?t' this path ds = Inl (Error m)"
      using r' bad by (rule Cons.IH)
    then show ?thesis
      using Cons.prems(1) Inr tr by simp
  qed
qed

lemma create_mappings_checked_refused:
  assumes "read_apiGateway t this = Some g"
    and "ds \<noteq> []" and "basePath_of path \<noteq> []" and "\<not> ok (basePath_of path)"
  shows "\<exists>m. create_mappings_checked ok t this path ds = Inl (Error m)"
proof (cases ds)
  case Nil
  then show ?thesis using assms(2) by simp
next
  case (Cons d rest)
  have "\<exists>m. register_BasePathMapping ok t this (mapping_id d)
           \<lparr>domainName_bpm = d, restApi = g, stage_bpm = read_deploymentStage t g,
            basePath = basePath_of path\<rparr> = Inl (Error m)"
    by (rule register_mapping_refused) (simp_all add: assms)
  then show ?thesis
    using Cons assms(1) by auto
qed

lemma stored_this_node: "stored (this_node t scope cid) = this_node t scope (sanitizeId cid)"
  by (simp add: stored_def this_node_def)

lemma stored_gateway_node: "stored (gateway_node t cid rp) = gateway_node t (sanitizeId cid) rp"
  by (simp add: stored_def gateway_node_def sanitizeId_append)

lemma stored_mapping_node_eq:
  "stored (mapping_node t path d) =
     stored_mapping_node (length t) (Suc (length t)) (Some (DeploymentStage (Suc (length t)))) path d"
  by (simp add: stored_def mapping_node_def stored_mapping_node_def stored_mapping_id_def)

lemma register_this:
  assumes "cid \<noteq> []" and "\<not> has_child t scope (sanitizeId cid)"
  shows "register t scope cid c =
           Inr (t @ [\<lparr>node_scope = scope, node_id = sanitizeId cid, node_construct = c\<rparr>], length t)"
  using assms by (simp add: register_def Let_def sanitizeId_empty new_construct_def)

lemma register_this_refused:
  assumes "cid = [] \<or> has_child t scope (sanitizeId cid)"
  shows "\<exists>m. register t scope cid c = Inl (Error m)"
  using assms by (auto simp add: register_def Let_def)

lemma register_gateway:
  assumes "scopes_inside t" and "scope < length t"
  shows "register_RestApi (t @ [\<lparr>node_scope = scope, node_id = i, node_construct = c\<rparr>])
            (length t) (''Gateway-'' @ cid) rp =
           Inr (t @ [\<lparr>node_scope = scope, node_id = i, node_construct = c\<rparr>,
                     gateway_node t (sanitizeId cid) rp], Suc (length t))"
proof -
  have "\<not> has_child t (length t) j" for j
    using assms(1) by (rule scopes_inside_no_child)
  then have "\<not> has_child (t @ [\<lparr>node_scope = scope, node_id = i, node_construct = c\<rparr>])
                (length t) j" for j
    using assms(2) by (simp add: has_child_append has_child_single)
  then show ?thesis
    by (simp add: register_RestApi_def register_def Let_def sanitizeId_append new_construct_def
        gateway_node_def)
qed

text \<open>The tree after the assignment: the construct and its gateway, nothing else new.\<close>

lemma assigned_tree:
  "assign_apiGateway
     (t @ [\<lparr>node_scope = scope, node_id = i,
             node_construct = InternalApiGateway_c \<lparr>apiGateway = None, apiGateway_assigned = 0\<rparr>\<rparr>,
           gateway_node t j rp]) (length t) (Suc (length t))
   = t @ [this_node t scope i, gateway_node t j rp]"
  by (simp add: assign_apiGateway_def lookup_def nth_append this_node_def list_update_append)

lemma no_mapping_under_new_construct:
  assumes "scopes_inside t" and "scope < length t"
  shows "\<not> has_child (t @ [this_node t scope i, gateway_node t j rp]) (length t)
            (stored_mapping_id d)"
proof -
  have "\<not> has_child t (length t) (stored_mapping_id d)"
    using assms(1) by (rule scopes_inside_no_child)
  then show ?thesis
    using assms(2)
    by (simp add: has_child_append has_child_def this_node_def gateway_node_def
        stored_mapping_id_hyphen)
qed

lemma checked_steps:
  assumes "scopes_inside t" and "scope < length t"
    and "cid \<noteq> []" and "\<not> has_child t scope (sanitizeId cid)"
    and "vpcEndpoint props = Some ep" and "domains props = Some ds"
  shows "InternalApiGateway_constructor_checked ok t scope cid props =
           (case create_mappings_checked ok
                   (t @ [this_node t scope (sanitizeId cid),
                         gateway_node t (sanitizeId cid) (gateway_props props ep)])
                   (length t) (apiBasePathMappingPath props) ds of
              Inl e \<Rightarrow> Inl e
            | Inr t4 \<Rightarrow> Inr (t4, length t))"
  unfolding InternalApiGateway_constructor_checked_def
  by (simp only: register_this [OF assms(3,4)] register_gateway [OF assms(1,2)] assigned_tree
      assms(5,6) Let_def prod.case option.case sum.case)

lemma checked_result:
  assumes "scopes_inside t" and "scope < length t"
    and "cid \<noteq> []" and "\<not> has_child t scope (sanitizeId cid)"
    and "vpcEndpoint props = Some ep" and "domains props = Some ds"
    and "distinct (map stored_mapping_id ds)"
    and "ds = [] \<or> basePath_of (apiBasePathMappingPath props) = []
           \<or> ok (basePath_of (apiBasePathMappingPath props))"
  shows "InternalApiGateway_constructor_checked ok t scope cid props =
           Inr (t @ map stored
                      (this_node t scope cid # gateway_node t cid (gateway_props props ep)
                         # map (mapping_node t (apiBasePathMappingPath props)) ds),
                length t)"
proof (cases "ds = []")
  case True
  then show ?thesis
    by (simp add: checked_steps [OF assms(1-6)] stored_this_node stored_gateway_node)
next
  case False
  let ?t3 = "t @ [this_node t scope (sanitizeId cid),
                  gateway_node t (sanitizeId cid) (gateway_props props ep)]"
  have rd: "read_apiGateway ?t3 (length t) = Some (Suc (length t))"
    by (simp add: read_apiGateway_def lookup_def nth_append this_node_def)
  have st: "read_deploymentStage ?t3 (Suc (length t)) = Some (DeploymentStage (Suc (length t)))"
    by (simp add: read_deploymentStage_def lookup_def nth_append gateway_node_def)
  have fr: "list_all (\<lambda>d. \<not> has_child ?t3 (length t) (stored_mapping_id d)) ds"
    by (simp add: list_all_iff no_mapping_under_new_construct [OF assms(1,2)])
  have bp: "basePath_of (apiBasePathMappingPath props) = []
              \<or> ok (basePath_of (apiBasePathMappingPath props))"
    using assms(8) False by simp
  have "create_mappings_checked ok ?t3 (length t) (apiBasePathMappingPath props) ds =
          Inr (?t3 @ map (stored_mapping_node (length t) (Suc (length t))
                            (read_deploymentStage ?t3 (Suc (length t)))
                            (apiBasePathMappingPath props)) ds)"
    using rd _ assms(7) fr bp by (rule create_mappings_checked_ok) simp
  then show ?thesis
    by (simp add: checked_steps [OF assms(1-6)] st stored_this_node stored_gateway_node
        stored_mapping_node_eq)
qed

lemma checked_collision:
  assumes "scopes_inside t" and "scope < length t"
    and "cid \<noteq> []" and "\<not> has_child t scope (sanitizeId cid)"
    and "vpcEndpoint props = Some ep" and "domains props = Some ds"
    and "\<not> distinct (map stored_mapping_id ds)"
  shows "\<exists>m. InternalApiGateway_constructor_checked ok t scope cid props = Inl (Error m)"
proof -
  let ?t3 = "t @ [this_node t scope (sanitizeId cid),
                  gateway_node t (sanitizeId cid) (gateway_props props ep)]"
  have rd: "read_apiGateway ?t3 (length t) = Some (Suc (length t))"
    by (simp add: read_apiGateway_def lookup_def nth_append this_node_def)
  have "\<exists>m. create_mappings_checked ok ?t3 (length t) (apiBasePathMappingPath props) ds
              = Inl (Error m)"
    using rd by (rule create_mappings_checked_collision) (simp add: assms(7))
  then show ?thesis
    by (auto simp add: checked_steps [OF assms(1-6)])
qed

lemma checked_refused:
  assumes "scopes_inside t" and "scope < length t"
    and "cid \<noteq> []" and "\<not> has_child t scope (sanitizeId cid)"
    and "vpcEndpoint props = Some ep" and "domains props = Some ds"
    and "ds \<noteq> []" and "basePath_of (apiBasePathMappingPath props) \<noteq> []"
    and "\<not> ok (basePath_of (apiBasePathMappingPath props))"
  shows "\<exists>m. InternalApiGateway_constructor_checked ok t scope cid props = Inl (Error m)"
proof -
  let ?t3 = "t @ [this_node t scope (sanitizeId cid),
                  gateway_node t (sanitizeId cid) (gateway_props props ep)]"
  have rd: "read_apiGateway ?t3 (length t) = Some (Suc (length t))"
    by (simp add: read_apiGateway_def lookup_def nth_append this_node_def)
  have "\<exists>m. create_mappings_checked ok ?t3 (length t) (apiBasePathMappingPath props) ds
              = Inl (Error m)"
    using rd assms(7,8,9) by (rule create_mappings_checked_refused)
  then show ?thesis
    by (auto simp add: checked_steps [OF assms(1-6)])
qed

lemma checked_id_refused:
  assumes "cid = [] \<or> has_child t scope (sanitizeId cid)"
  shows "\<exists>m. InternalApiGateway_constructor_checked ok t scope cid props = Inl (Error m)"
proof -
  obtain m where "register t scope cid
      (InternalApiGateway_c \<lparr>apiGateway = None, apiGateway_assigned = 0\<rparr>) = Inl (Error m)"
    using register_this_refused [OF assms] by blast
  then show ?thesis
    by (simp add: InternalApiGateway_constructor_checked_def)
qed

lemma checked_no_endpoint:
  assumes "cid \<noteq> []" and "\<not> has_child t scope (sanitizeId cid)"
    and "vpcEndpoint props = None"
  shows "\<exists>m. InternalApiGateway_constructor_checked ok t scope cid props = Inl (TypeError m)"
  by (simp add: InternalApiGateway_constructor_checked_def register_this [OF assms(1,2)] assms(3))

lemma checked_no_domains:
  assumes "scopes_inside t" and "scope < length t"
    and "cid \<noteq> []" and "\<not> has_child t scope (sanitizeId cid)"
    and "vpcEndpoint props = Some ep" and "domains props = None"
  shows "\<exists>m. InternalApiGateway_constructor_checked ok t scope cid props = Inl (TypeError m)"
  unfolding InternalApiGateway_constructor_checked_def
  by (simp only: register_this [OF assms(3,4)] register_gateway [OF assms(1,2)] assigned_tree
      assms(5,6) Let_def prod.case option.case sum.case) simp

lemma mappings_of_stored_result:
  "mappings_of (map stored (this_node t scope cid # gateway_node t cid rp
                              # map (mapping_node t path) ds)) (length t) =
     map (\<lambda>d. (stored_mapping_id d,
                \<lparr>domainName_bpm = d, restApi = Suc (length t),
                 stage_bpm = Some (DeploymentStage (Suc (length t))),
                 basePath = basePath_of path\<rparr>)) ds"
proof -
  have "mappings_of (map stored (map (mapping_node t path) ds)) (length t) =
     map (\<lambda>d. (stored_mapping_id d,
                \<lparr>domainName_bpm = d, restApi = Suc (length t),
                 stage_bpm = Some (DeploymentStage (Suc (length t))),
                 basePath = basePath_of path\<rparr>)) ds"
    by (induction ds) (simp_all add: stored_def mapping_node_def stored_mapping_id_def)
  then show ?thesis
    by (simp add: stored_def this_node_def gateway_node_def)
qed

lemma read_apiGateway_stored_result:
  "read_apiGateway (t @ map stored (this_node t scope cid # ns)) (length t) = Some (Suc (length t))"
  by (simp add: read_apiGateway_def lookup_def this_node_def stored_def)

lemma read_deploymentStage_stored_result:
  "read_deploymentStage (t @ map stored (this_node t scope cid # gateway_node t cid rp # ns))
      (Suc (length t)) = Some (DeploymentStage (Suc (length t)))"
  by (simp add: read_deploymentStage_def lookup_def nth_append stored_def gateway_node_def)

lemmas example_simps =
  scopes_inside_def id_accepted_def basePath_accepted_def has_child_def basePath_of_def
  stored_mapping_id_def mapping_id_def no_leading_slash_def

lemma distinct_stored_ids:
  "distinct (map stored_mapping_id ds) = distinct (map (\<lambda>d. ''-'' @ sanitizeId (toString d)) ds)"
  by (simp add: stored_mapping_id_hyphen [abs_def])

lemma checked_agrees_with_bare:
  assumes "scopes_inside t" and "scope < length t"
    and "cid \<noteq> []" and "\<not> has_child t scope (sanitizeId cid)"
    and "vpcEndpoint props = Some ep" and "domains props = Some ds"
    and "distinct (map stored_mapping_id ds)"
    and "ds = [] \<or> basePath_of (apiBasePathMappingPath props) = []
           \<or> ok (basePath_of (apiBasePathMappingPath props))"
  shows "\<exists>u. InternalApiGateway_constructor t scope cid props = Inr (u, length t)
           \<and> InternalApiGateway_constructor_checked ok t scope cid props
               = Inr (t @ map stored (created t u), length t)"
  by (simp add: constructor_result [OF assms(5,6)] checked_result [where ok = ok, OF assms]
      created_result del: list.map)

section \<open>The claims\<close>

text \<open>
  In the statements below \<open>t\<close> is the tree the constructor is called on, so that
  \<open>length t\<close> is the reference of the new construct, and
  \<open>props\<lparr>domains := Some ds, vpcEndpoint := Some ep\<rparr>\<close> is any configuration whose
  domain list and endpoint are present.

  The claims about the values that the constructor hands to the gateway and to each
  mapping are stated of the bare registration. The claims about how many constructs are
  registered, under which identifiers, and when the call ends with an exception are
  stated of the constructor with the checks of the library, called in a tree whose scopes
  are inside it (\<open>scopes_inside t\<close>) on a scope of that tree (\<open>scope < length t\<close>);
  by \<open>checked_agrees_with_bare\<close> the two readings register the same constructs
  whenever the checks pass, up to the stored form of the identifiers.
\<close>

text \<open>
  C1. For every configuration, the policy document bound to the gateway has exactly two
  statements. Both are for any principal, on the action \<^verbatim>\<open>execute-api:Invoke\<close>, over the
  same wildcard resource. The first denies under \<^verbatim>\<open>StringNotEquals\<close>, the second allows
  under \<^verbatim>\<open>StringEquals\<close>, both on the key \<^verbatim>\<open>aws:sourceVpce\<close> against the identifier of
  the configured endpoint; they differ in nothing but effect and condition.
\<close>

theorem policy_deny_allow_pair:
  "\<exists>t' r deny allow.
     InternalApiGateway_constructor t scope cid
         (props\<lparr>domains := Some ds, vpcEndpoint := Some ep\<rparr>) = Inr (t', length t)
   \<and> gateway_of t' (length t) = Some r
   \<and> statements (policy (restApiProps r)) = [deny, allow]
   \<and> effect deny = DENY \<and> effect allow = ALLOW
   \<and> principals deny = [AnyPrincipal] \<and> principals allow = [AnyPrincipal]
   \<and> actions deny = [''execute-api:Invoke''] \<and> actions allow = [''execute-api:Invoke'']
   \<and> resources deny = [''execute-api:/*/*/*''] \<and> resources allow = resources deny
   \<and> conditions deny = [(StringNotEquals, [(''aws:sourceVpce'', vpcEndpointId ep)])]
   \<and> conditions allow = [(StringEquals, [(''aws:sourceVpce'', vpcEndpointId ep)])]
   \<and> allow = deny\<lparr>effect := ALLOW, conditions := conditions allow\<rparr>"
  by (simp add: constructor_result result_simps gateway_props_def apiResourcePolicy_def)

text \<open>
  C2, amended. Let the library accept the identifier of the construct and, unless the
  domain list is empty, the base path. If the stored identifiers of the mappings are
  pairwise distinct, the constructor registers N + 2 constructs for a list of N domains:
  itself, the gateway, and exactly N base-path mappings, which carry the domains of the
  list in its order and refer, every one, to the deployment stage of the gateway that
  \<^verbatim>\<open>this.apiGateway\<close> holds; an empty list gives no mapping. If two stored identifiers
  are equal, as they are for a domain that is listed twice, the constructor ends with the
  library's error instead.
\<close>

theorem one_mapping_per_domain_unless_ids_collide:
  assumes "scopes_inside t" and "scope < length t" and "id_accepted t scope cid"
    and "ds = [] \<or> basePath_accepted ok (apiBasePathMappingPath props)"
  shows
   "(distinct (map stored_mapping_id ds) \<longrightarrow>
      (\<exists>t' g s.
         InternalApiGateway_constructor_checked ok t scope cid
             (props\<lparr>domains := Some ds, vpcEndpoint := Some ep\<rparr>) = Inr (t', length t)
       \<and> length (created t t') = 2 + length ds
       \<and> length (mappings_of (created t t') (length t)) = length ds
       \<and> map (domainName_bpm \<circ> snd) (mappings_of (created t t') (length t)) = ds
       \<and> read_apiGateway t' (length t) = Some g
       \<and> read_deploymentStage t' g = Some s
       \<and> map (stage_bpm \<circ> snd) (mappings_of (created t t') (length t))
            = replicate (length ds) (Some s)))
  \<and> (\<not> distinct (map stored_mapping_id ds) \<longrightarrow>
      (\<exists>m. InternalApiGateway_constructor_checked ok t scope cid
             (props\<lparr>domains := Some ds, vpcEndpoint := Some ep\<rparr>) = Inl (Error m)))"
proof (intro conjI impI)
  let ?props = "props\<lparr>domains := Some ds, vpcEndpoint := Some ep\<rparr>"
  have i: "cid \<noteq> []" "\<not> has_child t scope (sanitizeId cid)"
    using assms(3) by (simp_all add: id_accepted_def)
  have e: "vpcEndpoint ?props = Some ep" "domains ?props = Some ds"
    by simp_all
  {
    assume d: "distinct (map stored_mapping_id ds)"
    have b: "ds = [] \<or> basePath_of (apiBasePathMappingPath ?props) = []
               \<or> ok (basePath_of (apiBasePathMappingPath ?props))"
      using assms(4) by (auto simp add: basePath_accepted_def)
    show "\<exists>t' g s.
         InternalApiGateway_constructor_checked ok t scope cid ?props = Inr (t', length t)
       \<and> length (created t t') = 2 + length ds
       \<and> length (mappings_of (created t t') (length t)) = length ds
       \<and> map (domainName_bpm \<circ> snd) (mappings_of (created t t') (length t)) = ds
       \<and> read_apiGateway t' (length t) = Some g
       \<and> read_deploymentStage t' g = Some s
       \<and> map (stage_bpm \<circ> snd) (mappings_of (created t t') (length t))
            = replicate (length ds) (Some s)"
      by (simp add: checked_result [where ok = ok, OF assms(1,2) i e d b] created_result
          mappings_of_stored_result read_apiGateway_stored_result
          read_deploymentStage_stored_result comp_def map_replicate_const
          del: mappings_of.simps list.map)
  }
  {
    assume d: "\<not> distinct (map stored_mapping_id ds)"
    show "\<exists>m. InternalApiGateway_constructor_checked ok t scope cid ?props = Inl (Error m)"
      using assms(1,2) i e d by (rule checked_collision)
  }
qed

text \<open>
  An instance of C2, amended: two domains give two mappings in order; the first domain
  listed twice gives an error.
\<close>

theorem one_mapping_per_domain_unless_ids_collide_witness:
  "scopes_inside [\<lparr>node_scope = 0, node_id = ''Stack'', node_construct = Construct\<rparr>]
   \<and> 0 < length [\<lparr>node_scope = 0, node_id = ''Stack'', node_construct = Construct\<rparr>]
   \<and> id_accepted [\<lparr>node_scope = 0, node_id = ''Stack'', node_construct = Construct\<rparr>] 0 ''Api''
   \<and> basePath_accepted no_leading_slash None
   \<and> distinct (map stored_mapping_id [\<lparr>domainName = ''a.example.com'', toString = ''Stack/DomainA''\<rparr>, \<lparr>domainName = ''b.example.com'', toString = ''Stack/DomainB''\<rparr>])
   \<and> (\<exists>t' g s.
         InternalApiGateway_constructor_checked no_leading_slash
          [\<lparr>node_scope = 0, node_id = ''Stack'', node_construct = Construct\<rparr>] 0 ''Api''
           \<lparr>stage = Some ''prod'', domains = Some [\<lparr>domainName = ''a.example.com'', toString = ''Stack/DomainA''\<rparr>,
                            \<lparr>domainName = ''b.example.com'', toString = ''Stack/DomainB''\<rparr>], vpcEndpoint = Some \<lparr>vpcEndpointId = ''vpce-1''\<rparr>,
            apiBasePathMappingPath = None, binaryMediaTypes = None,
            minimumCompressionSize = None\<rparr> = Inr (t', 1)
       \<and> length (created [\<lparr>node_scope = 0, node_id = ''Stack'', node_construct = Construct\<rparr>] t') = 4
       \<and> map (domainName_bpm \<circ> snd) (mappings_of (created [\<lparr>node_scope = 0, node_id = ''Stack'', node_construct = Construct\<rparr>] t') 1) = [\<lparr>domainName = ''a.example.com'', toString = ''Stack/DomainA''\<rparr>, \<lparr>domainName = ''b.example.com'', toString = ''Stack/DomainB''\<rparr>]
       \<and> read_apiGateway t' 1 = Some g
       \<and> read_deploymentStage t' g = Some s
       \<and> map (stage_bpm \<circ> snd) (mappings_of (created [\<lparr>node_scope = 0, node_id = ''Stack'', node_construct = Construct\<rparr>] t') 1) = [Some s, Some s])
   \<and> \<not> distinct (map stored_mapping_id [\<lparr>domainName = ''a.example.com'', toString = ''Stack/DomainA''\<rparr>, \<lparr>domainName = ''a.example.com'', toString = ''Stack/DomainA''\<rparr>])
   \<and> (\<exists>m. InternalApiGateway_constructor_checked no_leading_slash
          [\<lparr>node_scope = 0, node_id = ''Stack'', node_construct = Construct\<rparr>] 0 ''Api''
           \<lparr>stage = Some ''prod'', domains = Some [\<lparr>domainName = ''a.example.com'', toString = ''Stack/DomainA''\<rparr>,
                            \<lparr>domainName = ''a.example.com'', toString = ''Stack/DomainA''\<rparr>], vpcEndpoint = Some \<lparr>vpcEndpointId = ''vpce-1''\<rparr>,
            apiBasePathMappingPath = None, binaryMediaTypes = None,
            minimumCompressionSize = None\<rparr> = Inl (Error m))"
proof -
  have a: "scopes_inside [\<lparr>node_scope = 0, node_id = ''Stack'', node_construct = Construct\<rparr>]"
    and b: "0 < length [\<lparr>node_scope = 0, node_id = ''Stack'', node_construct = Construct\<rparr>]"
    and c: "id_accepted [\<lparr>node_scope = 0, node_id = ''Stack'', node_construct = Construct\<rparr>] 0 ''Api''"
    and d: "basePath_accepted no_leading_slash None"
    and good: "distinct (map stored_mapping_id [\<lparr>domainName = ''a.example.com'', toString = ''Stack/DomainA''\<rparr>, \<lparr>domainName = ''b.example.com'', toString = ''Stack/DomainB''\<rparr>])"
    and bad: "\<not> distinct (map stored_mapping_id [\<lparr>domainName = ''a.example.com'', toString = ''Stack/DomainA''\<rparr>, \<lparr>domainName = ''a.example.com'', toString = ''Stack/DomainA''\<rparr>])"
    by (simp_all add: example_simps)
  have d1: "[\<lparr>domainName = ''a.example.com'', toString = ''Stack/DomainA''\<rparr>, \<lparr>domainName = ''b.example.com'', toString = ''Stack/DomainB''\<rparr>] = [] \<or> basePath_accepted no_leading_slash (apiBasePathMappingPath
           \<lparr>stage = Some ''prod'', domains = Some [\<lparr>domainName = ''a.example.com'', toString = ''Stack/DomainA''\<rparr>,
                            \<lparr>domainName = ''b.example.com'', toString = ''Stack/DomainB''\<rparr>], vpcEndpoint = Some \<lparr>vpcEndpointId = ''vpce-1''\<rparr>,
            apiBasePathMappingPath = None, binaryMediaTypes = None,
            minimumCompressionSize = None\<rparr>)"
    and d2: "[\<lparr>domainName = ''a.example.com'', toString = ''Stack/DomainA''\<rparr>, \<lparr>domainName = ''a.example.com'', toString = ''Stack/DomainA''\<rparr>] = [] \<or> basePath_accepted no_leading_slash (apiBasePathMappingPath
           \<lparr>stage = Some ''prod'', domains = Some [\<lparr>domainName = ''a.example.com'', toString = ''Stack/DomainA''\<rparr>,
                            \<lparr>domainName = ''a.example.com'', toString = ''Stack/DomainA''\<rparr>], vpcEndpoint = Some \<lparr>vpcEndpointId = ''vpce-1''\<rparr>,
            apiBasePathMappingPath = None, binaryMediaTypes = None,
            minimumCompressionSize = None\<rparr>)"
    using d by simp_all
  note th1 = one_mapping_per_domain_unless_ids_collide
               [where ok = no_leading_slash and ep = "\<lparr>vpcEndpointId = ''vpce-1''\<rparr>", OF a b c d1]
  note th2 = one_mapping_per_domain_unless_ids_collide
               [where ok = no_leading_slash and ep = "\<lparr>vpcEndpointId = ''vpce-1''\<rparr>", OF a b c d2]
  have r1: "\<exists>t' g s.
         InternalApiGateway_constructor_checked no_leading_slash
          [\<lparr>node_scope = 0, node_id = ''Stack'', node_construct = Construct\<rparr>] 0 ''Api''
           \<lparr>stage = Some ''prod'', domains = Some [\<lparr>domainName = ''a.example.com'', toString = ''Stack/DomainA''\<rparr>,
                            \<lparr>domainName = ''b.example.com'', toString = ''Stack/DomainB''\<rparr>], vpcEndpoint = Some \<lparr>vpcEndpointId = ''vpce-1''\<rparr>,
            apiBasePathMappingPath = None, binaryMediaTypes = None,
            minimumCompressionSize = None\<rparr> = Inr (t', 1)
       \<and> length (created [\<lparr>node_scope = 0, node_id = ''Stack'', node_construct = Construct\<rparr>] t') = 4
       \<and> map (domainName_bpm \<circ> snd) (mappings_of (created [\<lparr>node_scope = 0, node_id = ''Stack'', node_construct = Construct\<rparr>] t') 1) = [\<lparr>domainName = ''a.example.com'', toString = ''Stack/DomainA''\<rparr>, \<lparr>domainName = ''b.example.com'', toString = ''Stack/DomainB''\<rparr>]
       \<and> read_apiGateway t' 1 = Some g
       \<and> read_deploymentStage t' g = Some s
       \<and> map (stage_bpm \<circ> snd) (mappings_of (created [\<lparr>node_scope = 0, node_id = ''Stack'', node_construct = Construct\<rparr>] t') 1) = [Some s, Some s]"
    using th1 good by (auto simp del: mappings_of.simps)
  have r2: "\<exists>m. InternalApiGateway_constructor_checked no_leading_slash
          [\<lparr>node_scope = 0, node_id = ''Stack'', node_construct = Construct\<rparr>] 0 ''Api''
           \<lparr>stage = Some ''prod'', domains = Some [\<lparr>domainName = ''a.example.com'', toString = ''Stack/DomainA''\<rparr>,
                            \<lparr>domainName = ''a.example.com'', toString = ''Stack/DomainA''\<rparr>], vpcEndpoint = Some \<lparr>vpcEndpointId = ''vpce-1''\<rparr>,
            apiBasePathMappingPath = None, binaryMediaTypes = None,
            minimumCompressionSize = None\<rparr> = Inl (Error m)"
    using th2 bad by simp
  show ?thesis
    using a b c d good bad r1 r2 by blast
qed

text \<open>
  C2 as stated asks two mappings of a list that holds one domain twice. The second
  registration is refused, since the first has taken the identifier, and the constructor
  ends with that error.
\<close>

theorem repeated_domain_raises:
  "InternalApiGateway_constructor_checked no_leading_slash
          [\<lparr>node_scope = 0, node_id = ''Stack'', node_construct = Construct\<rparr>] 0 ''Api''
           \<lparr>stage = Some ''prod'', domains = Some [\<lparr>domainName = ''a.example.com'', toString = ''Stack/DomainA''\<rparr>,
                            \<lparr>domainName = ''a.example.com'', toString = ''Stack/DomainA''\<rparr>], vpcEndpoint = Some \<lparr>vpcEndpointId = ''vpce-1''\<rparr>,
            apiBasePathMappingPath = None, binaryMediaTypes = None,
            minimumCompressionSize = None\<rparr> = Inl (Error ''There is already a Construct with name -Stack--DomainA'')"
  by code_simp

text \<open>
  C3. For every configuration, the gateway is created with the endpoint types
  \<^verbatim>\<open>[PRIVATE]\<close>, with the supplied VPC endpoint as its only endpoint, and with the
  two-statement resource policy as its policy.
\<close>

theorem gateway_private_one_endpoint:
  "\<exists>t' r.
     InternalApiGateway_constructor t scope cid
         (props\<lparr>domains := Some ds, vpcEndpoint := Some ep\<rparr>) = Inr (t', length t)
   \<and> gateway_of t' (length t) = Some r
   \<and> types (endpointConfiguration (restApiProps r)) = [PRIVATE]
   \<and> vpcEndpoints (endpointConfiguration (restApiProps r)) = [ep]
   \<and> policy (restApiProps r) = apiResourcePolicy (vpcEndpointId ep)
   \<and> length (statements (policy (restApiProps r))) = 2"
  by (simp add: constructor_result result_simps gateway_props_def apiResourcePolicy_def)

text \<open>
  C4. For every configuration, the stage name of the gateway's deploy options is the
  configured \<^verbatim>\<open>stage\<close>, unchanged.
\<close>

theorem stage_name_verbatim:
  "\<exists>t' r.
     InternalApiGateway_constructor t scope cid
         (props\<lparr>stage := st, domains := Some ds, vpcEndpoint := Some ep\<rparr>) = Inr (t', length t)
   \<and> gateway_of t' (length t) = Some r
   \<and> stageName (deployOptions (restApiProps r)) = st"
  by (simp add: constructor_result result_simps gateway_props_def)

text \<open>
  C5. For every configuration, all mappings have one and the same base path, which
  depends on \<^verbatim>\<open>apiBasePathMappingPath\<close> alone and not on the domain: the empty string
  when it is unset, \<^verbatim>\<open>v1\<close> when it is \<^verbatim>\<open>v1\<close>.
\<close>

theorem shared_base_path:
  "(\<exists>t'.
     InternalApiGateway_constructor t scope cid
         (props\<lparr>domains := Some ds, vpcEndpoint := Some ep\<rparr>) = Inr (t', length t)
   \<and> map (basePath \<circ> snd) (mappings_of (created t t') (length t))
        = replicate (length ds) (basePath_of (apiBasePathMappingPath props)))
 \<and> (\<exists>t'.
     InternalApiGateway_constructor t scope cid
         (props\<lparr>domains := Some ds, vpcEndpoint := Some ep,
                apiBasePathMappingPath := None\<rparr>) = Inr (t', length t)
   \<and> map (basePath \<circ> snd) (mappings_of (created t t') (length t))
        = replicate (length ds) [])
 \<and> (\<exists>t'.
     InternalApiGateway_constructor t scope cid
         (props\<lparr>domains := Some ds, vpcEndpoint := Some ep,
                apiBasePathMappingPath := Some ''v1''\<rparr>) = Inr (t', length t)
   \<and> map (basePath \<circ> snd) (mappings_of (created t t') (length t))
        = replicate (length ds) ''v1'')"
  by (simp add: constructor_result result_simps comp_def map_replicate_const basePath_of_simps
        del: mappings_of.simps)

text \<open>
  C6. For every configuration, \<^verbatim>\<open>binaryMediaTypes\<close> and \<^verbatim>\<open>minimumCompressionSize\<close>
  reach the gateway unchanged: left out, the gateway has neither; given as
  \<^verbatim>\<open>["application/octet-stream"]\<close> and \<^verbatim>\<open>1024\<close>, it has exactly these.
\<close>

theorem media_types_and_compression_pass_through:
  "(\<exists>t' r.
     InternalApiGateway_constructor t scope cid
         (props\<lparr>domains := Some ds, vpcEndpoint := Some ep,
                binaryMediaTypes := bm, minimumCompressionSize := mc\<rparr>) = Inr (t', length t)
   \<and> gateway_of t' (length t) = Some r
   \<and> binaryMediaTypes_api (restApiProps r) = bm
   \<and> minimumCompressionSize_api (restApiProps r) = mc)
 \<and> (\<exists>t' r.
     InternalApiGateway_constructor t scope cid
         (props\<lparr>domains := Some ds, vpcEndpoint := Some ep,
                binaryMediaTypes := None, minimumCompressionSize := None\<rparr>) = Inr (t', length t)
   \<and> gateway_of t' (length t) = Some r
   \<and> binaryMediaTypes_api (restApiProps r) = None
   \<and> minimumCompressionSize_api (restApiProps r) = None)
 \<and> (\<exists>t' r.
     InternalApiGateway_constructor t scope cid
         (props\<lparr>domains := Some ds, vpcEndpoint := Some ep,
                binaryMediaTypes := Some [''application/octet-stream''],
                minimumCompressionSize := Some 1024\<rparr>) = Inr (t', length t)
   \<and> gateway_of t' (length t) = Some r
   \<and> binaryMediaTypes_api (restApiProps r) = Some [''application/octet-stream'']
   \<and> minimumCompressionSize_api (restApiProps r) = Some 1024)"
  by (simp add: constructor_result result_simps gateway_props_def)

text \<open>
  C7, amended. Let the library accept the identifier of the construct and, unless the
  domain list is empty, the base path. The identifier of a mapping, as stored, is a hyphen
  followed by the string its domain converts to, every \<^verbatim>\<open>/\<close> replaced by \<^verbatim>\<open>--\<close>. If
  these strings are pairwise distinct over the list, the mappings are registered under
  them, in order. If two of them are equal, which is so for a domain listed twice and
  also for distinct domains whose strings differ only in \<^verbatim>\<open>/\<close> against \<^verbatim>\<open>--\<close>, the
  identifiers collide and the constructor ends with the library's error.
\<close>

theorem mapping_identifiers_as_stored:
  assumes "scopes_inside t" and "scope < length t" and "id_accepted t scope cid"
    and "ds = [] \<or> basePath_accepted ok (apiBasePathMappingPath props)"
  shows
   "(distinct (map (\<lambda>d. ''-'' @ sanitizeId (toString d)) ds) \<longrightarrow>
      (\<exists>t'.
         InternalApiGateway_constructor_checked ok t scope cid
             (props\<lparr>domains := Some ds, vpcEndpoint := Some ep\<rparr>) = Inr (t', length t)
       \<and> map fst (mappings_of (created t t') (length t))
            = map (\<lambda>d. ''-'' @ sanitizeId (toString d)) ds))
  \<and> (\<not> distinct (map (\<lambda>d. ''-'' @ sanitizeId (toString d)) ds) \<longrightarrow>
      (\<exists>m. InternalApiGateway_constructor_checked ok t scope cid
             (props\<lparr>domains := Some ds, vpcEndpoint := Some ep\<rparr>) = Inl (Error m)))"
proof (intro conjI impI)
  let ?props = "props\<lparr>domains := Some ds, vpcEndpoint := Some ep\<rparr>"
  have i: "cid \<noteq> []" "\<not> has_child t scope (sanitizeId cid)"
    using assms(3) by (simp_all add: id_accepted_def)
  have e: "vpcEndpoint ?props = Some ep" "domains ?props = Some ds"
    by simp_all
  {
    assume "distinct (map (\<lambda>d. ''-'' @ sanitizeId (toString d)) ds)"
    then have d: "distinct (map stored_mapping_id ds)"
      by (simp add: distinct_stored_ids)
    have b: "ds = [] \<or> basePath_of (apiBasePathMappingPath ?props) = []
               \<or> ok (basePath_of (apiBasePathMappingPath ?props))"
      using assms(4) by (auto simp add: basePath_accepted_def)
    show "\<exists>t'.
         InternalApiGateway_constructor_checked ok t scope cid ?props = Inr (t', length t)
       \<and> map fst (mappings_of (created t t') (length t))
            = map (\<lambda>d. ''-'' @ sanitizeId (toString d)) ds"
      by (simp add: checked_result [where ok = ok, OF assms(1,2) i e d b] created_result
          mappings_of_stored_result comp_def stored_mapping_id_hyphen
          del: mappings_of.simps list.map)
  }
  {
    assume "\<not> distinct (map (\<lambda>d. ''-'' @ sanitizeId (toString d)) ds)"
    then have d: "\<not> distinct (map stored_mapping_id ds)"
      by (simp add: distinct_stored_ids)
    show "\<exists>m. InternalApiGateway_constructor_checked ok t scope cid ?props = Inl (Error m)"
      using assms(1,2) i e d by (rule checked_collision)
  }
qed

text \<open>
  An instance of C7, amended: two domains with distinct stored identifiers are
  registered under them; a list that repeats a domain gives an error.
\<close>

theorem mapping_identifiers_as_stored_witness:
  "scopes_inside [\<lparr>node_scope = 0, node_id = ''Stack'', node_construct = Construct\<rparr>]
   \<and> 0 < length [\<lparr>node_scope = 0, node_id = ''Stack'', node_construct = Construct\<rparr>]
   \<and> id_accepted [\<lparr>node_scope = 0, node_id = ''Stack'', node_construct = Construct\<rparr>] 0 ''Api''
   \<and> basePath_accepted no_leading_slash None
   \<and> distinct (map (\<lambda>d. ''-'' @ sanitizeId (toString d)) [\<lparr>domainName = ''a.example.com'', toString = ''Stack/a/b''\<rparr>, \<lparr>domainName = ''b.example.com'', toString = ''Stack/DomainB''\<rparr>])
   \<and> (\<exists>t'.
         InternalApiGateway_constructor_checked no_leading_slash
          [\<lparr>node_scope = 0, node_id = ''Stack'', node_construct = Construct\<rparr>] 0 ''Api''
           \<lparr>stage = Some ''prod'', domains = Some [\<lparr>domainName = ''a.example.com'', toString = ''Stack/a/b''\<rparr>,
                            \<lparr>domainName = ''b.example.com'', toString = ''Stack/DomainB''\<rparr>], vpcEndpoint = Some \<lparr>vpcEndpointId = ''vpce-1''\<rparr>,
            apiBasePathMappingPath = None, binaryMediaTypes = None,
            minimumCompressionSize = None\<rparr> = Inr (t', 1)
       \<and> map fst (mappings_of (created [\<lparr>node_scope = 0, node_id = ''Stack'', node_construct = Construct\<rparr>] t') 1) = [''-Stack--a--b'', ''-Stack--DomainB''])
   \<and> \<not> distinct (map (\<lambda>d. ''-'' @ sanitizeId (toString d)) [\<lparr>domainName = ''b.example.com'', toString = ''Stack/DomainB''\<rparr>, \<lparr>domainName = ''a.example.com'', toString = ''Stack/a/b''\<rparr>, \<lparr>domainName = ''b.example.com'', toString = ''Stack/DomainB''\<rparr>])
   \<and> (\<exists>m. InternalApiGateway_constructor_checked no_leading_slash
          [\<lparr>node_scope = 0, node_id = ''Stack'', node_construct = Construct\<rparr>] 0 ''Api''
           \<lparr>stage = Some ''prod'', domains = Some [\<lparr>domainName = ''b.example.com'', toString = ''Stack/DomainB''\<rparr>,
                            \<lparr>domainName = ''a.example.com'', toString = ''Stack/a/b''\<rparr>,
                            \<lparr>domainName = ''b.example.com'', toString = ''Stack/DomainB''\<rparr>], vpcEndpoint = Some \<lparr>vpcEndpointId = ''vpce-1''\<rparr>,
            apiBasePathMappingPath = None, binaryMediaTypes = None,
            minimumCompressionSize = None\<rparr> = Inl (Error m))"
proof -
  have a: "scopes_inside [\<lparr>node_scope = 0, node_id = ''Stack'', node_construct = Construct\<rparr>]"
    and b: "0 < length [\<lparr>node_scope = 0, node_id = ''Stack'', node_construct = Construct\<rparr>]"
    and c: "id_accepted [\<lparr>node_scope = 0, node_id = ''Stack'', node_construct = Construct\<rparr>] 0 ''Api''"
    and d: "basePath_accepted no_leading_slash None"
    and good: "distinct (map (\<lambda>d. ''-'' @ sanitizeId (toString d)) [\<lparr>domainName = ''a.example.com'', toString = ''Stack/a/b''\<rparr>, \<lparr>domainName = ''b.example.com'', toString = ''Stack/DomainB''\<rparr>])"
    and bad: "\<not> distinct (map (\<lambda>d. ''-'' @ sanitizeId (toString d)) [\<lparr>domainName = ''b.example.com'', toString = ''Stack/DomainB''\<rparr>, \<lparr>domainName = ''a.example.com'', toString = ''Stack/a/b''\<rparr>, \<lparr>domainName = ''b.example.com'', toString = ''Stack/DomainB''\<rparr>])"
    by (simp_all add: example_simps)
  have d1: "[\<lparr>domainName = ''a.example.com'', toString = ''Stack/a/b''\<rparr>, \<lparr>domainName = ''b.example.com'', toString = ''Stack/DomainB''\<rparr>] = [] \<or> basePath_accepted no_leading_slash (apiBasePathMappingPath
           \<lparr>stage = Some ''prod'', domains = Some [\<lparr>domainName = ''a.example.com'', toString = ''Stack/a/b''\<rparr>,
                            \<lparr>domainName = ''b.example.com'', toString = ''Stack/DomainB''\<rparr>], vpcEndpoint = Some \<lparr>vpcEndpointId = ''vpce-1''\<rparr>,
            apiBasePathMappingPath = None, binaryMediaTypes = None,
            minimumCompressionSize = None\<rparr>)"
    and d2: "[\<lparr>domainName = ''b.example.com'', toString = ''Stack/DomainB''\<rparr>, \<lparr>domainName = ''a.example.com'', toString = ''Stack/a/b''\<rparr>, \<lparr>domainName = ''b.example.com'', toString = ''Stack/DomainB''\<rparr>] = [] \<or> basePath_accepted no_leading_slash (apiBasePathMappingPath
           \<lparr>stage = Some ''prod'', domains = Some [\<lparr>domainName = ''b.example.com'', toString = ''Stack/DomainB''\<rparr>,
                            \<lparr>domainName = ''a.example.com'', toString = ''Stack/a/b''\<rparr>,
                            \<lparr>domainName = ''b.example.com'', toString = ''Stack/DomainB''\<rparr>], vpcEndpoint = Some \<lparr>vpcEndpointId = ''vpce-1''\<rparr>,
            apiBasePathMappingPath = None, binaryMediaTypes = None,
            minimumCompressionSize = None\<rparr>)"
    using d by simp_all
  note th1 = mapping_identifiers_as_stored
               [where ok = no_leading_slash and ep = "\<lparr>vpcEndpointId = ''vpce-1''\<rparr>", OF a b c d1]
  note th2 = mapping_identifiers_as_stored
               [where ok = no_leading_slash and ep = "\<lparr>vpcEndpointId = ''vpce-1''\<rparr>", OF a b c d2]
  have r1: "\<exists>t'.
         InternalApiGateway_constructor_checked no_leading_slash
          [\<lparr>node_scope = 0, node_id = ''Stack'', node_construct = Construct\<rparr>] 0 ''Api''
           \<lparr>stage = Some ''prod'', domains = Some [\<lparr>domainName = ''a.example.com'', toString = ''Stack/a/b''\<rparr>,
                            \<lparr>domainName = ''b.example.com'', toString = ''Stack/DomainB''\<rparr>], vpcEndpoint = Some \<lparr>vpcEndpointId = ''vpce-1''\<rparr>,
            apiBasePathMappingPath = None, binaryMediaTypes = None,
            minimumCompressionSize = None\<rparr> = Inr (t', 1)
       \<and> map fst (mappings_of (created [\<lparr>node_scope = 0, node_id = ''Stack'', node_construct = Construct\<rparr>] t') 1) = [''-Stack--a--b'', ''-Stack--DomainB'']"
    using th1 good by (auto simp del: mappings_of.simps)
  have r2: "\<exists>m. InternalApiGateway_constructor_checked no_leading_slash
          [\<lparr>node_scope = 0, node_id = ''Stack'', node_construct = Construct\<rparr>] 0 ''Api''
           \<lparr>stage = Some ''prod'', domains = Some [\<lparr>domainName = ''b.example.com'', toString = ''Stack/DomainB''\<rparr>,
                            \<lparr>domainName = ''a.example.com'', toString = ''Stack/a/b''\<rparr>,
                            \<lparr>domainName = ''b.example.com'', toString = ''Stack/DomainB''\<rparr>], vpcEndpoint = Some \<lparr>vpcEndpointId = ''vpce-1''\<rparr>,
            apiBasePathMappingPath = None, binaryMediaTypes = None,
            minimumCompressionSize = None\<rparr> = Inl (Error m)"
    using th2 bad by simp
  show ?thesis
    using a b c d good bad r1 r2 by blast
qed

text \<open>
  C7 as stated asks distinct identifiers of any two distinct domains. Two domains that
  differ in name and in the string they convert to, \<^verbatim>\<open>Stack/a/b\<close> and
  \<^verbatim>\<open>Stack/a--b\<close>, are stored under the same identifier: the second registration is
  refused.
\<close>

theorem distinct_domains_colliding_identifiers:
  "\<lparr>domainName = ''a.example.com'', toString = ''Stack/a/b''\<rparr> \<noteq> \<lparr>domainName = ''b.example.com'', toString = ''Stack/a--b''\<rparr>
   \<and> toString \<lparr>domainName = ''a.example.com'', toString = ''Stack/a/b''\<rparr> \<noteq> toString \<lparr>domainName = ''b.example.com'', toString = ''Stack/a--b''\<rparr>
   \<and> InternalApiGateway_constructor_checked no_leading_slash
          [\<lparr>node_scope = 0, node_id = ''Stack'', node_construct = Construct\<rparr>] 0 ''Api''
           \<lparr>stage = Some ''prod'', domains = Some [\<lparr>domainName = ''a.example.com'', toString = ''Stack/a/b''\<rparr>,
                            \<lparr>domainName = ''b.example.com'', toString = ''Stack/a--b''\<rparr>], vpcEndpoint = Some \<lparr>vpcEndpointId = ''vpce-1''\<rparr>,
            apiBasePathMappingPath = None, binaryMediaTypes = None,
            minimumCompressionSize = None\<rparr> = Inl (Error ''There is already a Construct with name -Stack--a--b'')"
  by code_simp

text \<open>
  C8, amended. The constructor checks nothing and catches nothing itself. Its own code
  raises a \<^verbatim>\<open>TypeError\<close> exactly when the library has accepted the identifier of the
  construct and \<^verbatim>\<open>vpcEndpoint\<close> or \<^verbatim>\<open>domains\<close> is absent. An error of the library
  ends it exactly when the library refuses the identifier of the construct, or, with
  endpoint and domains present, two mappings collide in their stored identifier or there
  is a domain and the base path is refused. In every other case, whatever the stage and
  the optional fields, an empty domain list included, it returns the tree extended by
  itself, the gateway with the stage name, the binary media types and the compression
  size as configured, and one mapping per domain with the configured base path.
\<close>

theorem raises_when_absent_or_refused:
  assumes "scopes_inside t" and "scope < length t"
  shows
   "((\<exists>m. InternalApiGateway_constructor_checked ok t scope cid props = Inl (TypeError m)) =
        (id_accepted t scope cid \<and> (vpcEndpoint props = None \<or> domains props = None)))
  \<and> ((\<exists>m. InternalApiGateway_constructor_checked ok t scope cid props = Inl (Error m)) =
        (\<not> id_accepted t scope cid
         \<or> (\<exists>ep ds. vpcEndpoint props = Some ep \<and> domains props = Some ds
              \<and> (\<not> distinct (map stored_mapping_id ds)
                 \<or> (ds \<noteq> [] \<and> \<not> basePath_accepted ok (apiBasePathMappingPath props))))))
  \<and> (\<forall>ep ds.
        id_accepted t scope cid \<and> vpcEndpoint props = Some ep \<and> domains props = Some ds
        \<and> distinct (map stored_mapping_id ds)
        \<and> (ds = [] \<or> basePath_accepted ok (apiBasePathMappingPath props))
      \<longrightarrow> InternalApiGateway_constructor_checked ok t scope cid props =
            Inr (t @ map stored
                       (this_node t scope cid # gateway_node t cid (gateway_props props ep)
                          # map (mapping_node t (apiBasePathMappingPath props)) ds),
                 length t))"
proof (cases "id_accepted t scope cid")
  case False
  then have "cid = [] \<or> has_child t scope (sanitizeId cid)"
    by (auto simp add: id_accepted_def)
  then have "\<exists>m. InternalApiGateway_constructor_checked ok t scope cid props = Inl (Error m)"
    by (rule checked_id_refused)
  then show ?thesis
    using False by auto
next
  case True
  then have i: "cid \<noteq> []" "\<not> has_child t scope (sanitizeId cid)"
    by (simp_all add: id_accepted_def)
  show ?thesis
  proof (cases "vpcEndpoint props")
    case None
    have "\<exists>m. InternalApiGateway_constructor_checked ok t scope cid props = Inl (TypeError m)"
      using i None by (rule checked_no_endpoint)
    then show ?thesis
      using True None by auto
  next
    case (Some ep)
    note ep = Some
    show ?thesis
    proof (cases "domains props")
      case None
      have "\<exists>m. InternalApiGateway_constructor_checked ok t scope cid props = Inl (TypeError m)"
        using assms i ep None by (rule checked_no_domains)
      then show ?thesis
        using True ep None by auto
    next
      case (Some ds)
      note ds = Some
      show ?thesis
      proof (cases "distinct (map stored_mapping_id ds)")
        case False
        have "\<exists>m. InternalApiGateway_constructor_checked ok t scope cid props = Inl (Error m)"
          using assms i ep ds False by (rule checked_collision)
        then show ?thesis
          using True ep ds False by auto
      next
        case True
        note dist = True
        show ?thesis
        proof (cases "ds = [] \<or> basePath_accepted ok (apiBasePathMappingPath props)")
          case True
          then have b: "ds = [] \<or> basePath_of (apiBasePathMappingPath props) = []
                 \<or> ok (basePath_of (apiBasePathMappingPath props))"
            by (auto simp add: basePath_accepted_def)
          have "InternalApiGateway_constructor_checked ok t scope cid props =
            Inr (t @ map stored
                       (this_node t scope cid # gateway_node t cid (gateway_props props ep)
                          # map (mapping_node t (apiBasePathMappingPath props)) ds),
                 length t)"
            using assms i ep ds dist b by (rule checked_result [where ok = ok])
          then show ?thesis
            using \<open>id_accepted t scope cid\<close> ep ds dist True by auto
        next
          case False
          then have n: "ds \<noteq> []" "basePath_of (apiBasePathMappingPath props) \<noteq> []"
            "\<not> ok (basePath_of (apiBasePathMappingPath props))"
            by (auto simp add: basePath_accepted_def)
          have "\<exists>m. InternalApiGateway_constructor_checked ok t scope cid props = Inl (Error m)"
            using assms i ep ds n by (rule checked_refused)
          then show ?thesis
            using \<open>id_accepted t scope cid\<close> ep ds dist False by auto
        qed
      qed
    qed
  qed
qed

text \<open>
  An instance of C8, amended, with every optional field set: the whole tree that the
  constructor returns.
\<close>

theorem raises_when_absent_or_refused_witness:
  "scopes_inside [\<lparr>node_scope = 0, node_id = ''Stack'', node_construct = Construct\<rparr>]
   \<and> 0 < length [\<lparr>node_scope = 0, node_id = ''Stack'', node_construct = Construct\<rparr>]
   \<and> InternalApiGateway_constructor_checked no_leading_slash [\<lparr>node_scope = 0, node_id = ''Stack'', node_construct = Construct\<rparr>] 0 ''Api''
        \<lparr>stage = Some ''prod'', domains = Some [\<lparr>domainName = ''a.example.com'', toString = ''Stack/DomainA''\<rparr>, \<lparr>domainName = ''b.example.com'', toString = ''Stack/DomainB''\<rparr>], vpcEndpoint = Some \<lparr>vpcEndpointId = ''vpce-1''\<rparr>,
         apiBasePathMappingPath = Some ''v1'',
         binaryMediaTypes = Some [''application/octet-stream''],
         minimumCompressionSize = Some 1024\<rparr>
     = Inr ([\<lparr>node_scope = 0, node_id = ''Stack'', node_construct = Construct\<rparr>,
             \<lparr>node_scope = 0, node_id = ''Api'',
              node_construct = InternalApiGateway_c
                \<lparr>apiGateway = Some 2, apiGateway_assigned = 1\<rparr>\<rparr>,
             \<lparr>node_scope = 1, node_id = ''Gateway-Api'',
              node_construct = RestApi_c
                \<lparr>restApiProps =
                   \<lparr>description = ''This service serves an internal api gateway'',
                    endpointConfiguration = \<lparr>types = [PRIVATE], vpcEndpoints = [\<lparr>vpcEndpointId = ''vpce-1''\<rparr>]\<rparr>,
                    policy = apiResourcePolicy ''vpce-1'',
                    deployOptions = \<lparr>stageName = Some ''prod''\<rparr>,
                    binaryMediaTypes_api = Some [''application/octet-stream''],
                    minimumCompressionSize_api = Some 1024\<rparr>,
                 deploymentStage = DeploymentStage 2\<rparr>\<rparr>,
             \<lparr>node_scope = 1, node_id = ''-Stack--DomainA'',
              node_construct = BasePathMapping_c
                \<lparr>domainName_bpm = \<lparr>domainName = ''a.example.com'', toString = ''Stack/DomainA''\<rparr>, restApi = 2,
                 stage_bpm = Some (DeploymentStage 2), basePath = ''v1''\<rparr>\<rparr>,
             \<lparr>node_scope = 1, node_id = ''-Stack--DomainB'',
              node_construct = BasePathMapping_c
                \<lparr>domainName_bpm = \<lparr>domainName = ''b.example.com'', toString = ''Stack/DomainB''\<rparr>, restApi = 2,
                 stage_bpm = Some (DeploymentStage 2), basePath = ''v1''\<rparr>\<rparr>],
            1)"
proof -
  have a: "scopes_inside [\<lparr>node_scope = 0, node_id = ''Stack'', node_construct = Construct\<rparr>]" and b: "0 < length [\<lparr>node_scope = 0, node_id = ''Stack'', node_construct = Construct\<rparr>]"
    by (simp_all add: example_simps)
  note th = raises_when_absent_or_refused [where ok = no_leading_slash and cid = "''Api''",
      OF a b, THEN conjunct2, THEN conjunct2, rule_format]
  show ?thesis
    using a b
    by (simp add: th [where ep = "\<lparr>vpcEndpointId = ''vpce-1''\<rparr>" and ds = "[\<lparr>domainName = ''a.example.com'', toString = ''Stack/DomainA''\<rparr>, \<lparr>domainName = ''b.example.com'', toString = ''Stack/DomainB''\<rparr>]"] example_simps stored_def
        this_node_def gateway_node_def mapping_node_def gateway_props_def)
qed

text \<open>
  C8 as stated lets the constructor raise only when a required field is absent. With all
  three present and the base path \<^verbatim>\<open>/v1\<close>, the first mapping is refused and the
  constructor ends with that error.
\<close>

theorem required_fields_present_yet_raises:
  "InternalApiGateway_constructor_checked no_leading_slash [\<lparr>node_scope = 0, node_id = ''Stack'', node_construct = Construct\<rparr>] 0 ''Api''
     \<lparr>stage = Some ''prod'', domains = Some [\<lparr>domainName = ''a.example.com'', toString = ''Stack/DomainA''\<rparr>], vpcEndpoint = Some \<lparr>vpcEndpointId = ''vpce-1''\<rparr>,
      apiBasePathMappingPath = Some ''/v1'', binaryMediaTypes = None,
      minimumCompressionSize = None\<rparr>
   = Inl (Error ''A base path was refused, received: /v1'')"
  by code_simp

text \<open>
  C9. After construction the field \<^verbatim>\<open>apiGateway\<close> has been assigned exactly once and
  holds the reference of the gateway. Every mapping has that reference as its REST API and
  that gateway's \<^verbatim>\<open>deploymentStage\<close> as its stage.
\<close>

theorem mappings_reference_assigned_gateway:
  "\<exists>t' g r.
     InternalApiGateway_constructor t scope cid
         (props\<lparr>domains := Some ds, vpcEndpoint := Some ep\<rparr>) = Inr (t', length t)
   \<and> fields_of t' (length t) = Some \<lparr>apiGateway = Some g, apiGateway_assigned = 1\<rparr>
   \<and> gateway_of t' (length t) = Some r
   \<and> map (restApi \<circ> snd) (mappings_of (created t t') (length t)) = replicate (length ds) g
   \<and> map (stage_bpm \<circ> snd) (mappings_of (created t t') (length t))
        = replicate (length ds) (Some (deploymentStage r))"
  by (simp add: constructor_result result_simps comp_def map_replicate_const
        mappings_of_result_nil del: mappings_of.simps)

text \<open>
  C10. Two configurations that differ only in \<^verbatim>\<open>apiBasePathMappingPath\<close>, the empty
  string in one and unset in the other, give the same result; with domains and endpoint
  present, the base path of every mapping is the empty string in both.
\<close>

theorem empty_base_path_same_as_unset:
  "InternalApiGateway_constructor t scope cid (props\<lparr>apiBasePathMappingPath := Some ''''\<rparr>)
     = InternalApiGateway_constructor t scope cid (props\<lparr>apiBasePathMappingPath := None\<rparr>)
   \<and> (\<exists>t'.
        InternalApiGateway_constructor t scope cid
          (props\<lparr>domains := Some ds, vpcEndpoint := Some ep,
                 apiBasePathMappingPath := Some ''''\<rparr>) = Inr (t', length t)
      \<and> InternalApiGateway_constructor t scope cid
          (props\<lparr>domains := Some ds, vpcEndpoint := Some ep,
                 apiBasePathMappingPath := None\<rparr>) = Inr (t', length t)
      \<and> map (basePath \<circ> snd) (mappings_of (created t t') (length t))
           = replicate (length ds) [])"
proof -
  have "create_mappings u this (Some '''') xs = create_mappings u this None xs" for u this xs
    by (rule create_mappings_path) (simp add: basePath_of_simps)
  then have "InternalApiGateway_constructor t scope cid (props\<lparr>apiBasePathMappingPath := Some ''''\<rparr>)
     = InternalApiGateway_constructor t scope cid (props\<lparr>apiBasePathMappingPath := None\<rparr>)"
    by (simp add: InternalApiGateway_constructor_def gateway_props_def new_construct_def
          new_RestApi_def split: option.splits)
  then show ?thesis
    by (simp add: constructor_result result_simps comp_def map_replicate_const basePath_of_simps
          mapping_node_def gateway_props_def del: mappings_of.simps)
qed

end
